theory Spec2Isabelle
  imports
    Complex_Main
    "HOL-Library.Char_ord"
    "HOL-Library.List_Lexorder"
    "HOL-Library.Product_Lexorder"
begin

section \<open>Data model\<close>

text \<open>
  The calculator in \<^verbatim>\<open>utils/calculations.py\<close> reads two tables: the status logs
  (\<^verbatim>\<open>machine_logs\<close>) and the failure logs (\<^verbatim>\<open>failures\<close>), both created in
  \<^verbatim>\<open>database/db_handler.py\<close>. A table that is only read is a list of rows, one
  record per row, with the columns that \<^verbatim>\<open>SELECT *\<close> gives.

  The columns \<^verbatim>\<open>duration_minutes\<close> and \<^verbatim>\<open>downtime_minutes\<close> are \<^verbatim>\<open>REAL\<close>. They
  and every quotient computed from them are exact real numbers here: a value of this
  model is the real number that the 64-bit float of the code approximates, to a
  relative error of about \<open>10\<^sup>-\<^sup>1\<^sup>6\<close> per operation. Statements below are therefore
  about bounds, orders, keys and values at inputs where every intermediate result is
  exactly representable; an identity between returned values that holds only for exact
  quotients is a fact of this arithmetic and is marked as such. \<^verbatim>\<open>NULL\<close> cells are
  outside the model.

  The column \<^verbatim>\<open>production_count\<close> is \<^verbatim>\<open>INTEGER\<close>; a frame holds it as 64-bit signed
  integers, and the sum of the column wraps around. The column \<^verbatim>\<open>status\<close> is
  \<^verbatim>\<open>TEXT\<close>: any string can occur, not only the five keys of \<^verbatim>\<open>MACHINE_STATUS\<close>.
\<close>

type_synonym date = "nat \<times> nat \<times> nat"

record timestamp =
  ts_year :: nat
  ts_month :: nat
  ts_day :: nat
  ts_hour :: nat
  ts_minute :: nat
  ts_second :: nat

text \<open>\<^verbatim>\<open>pd.to_datetime(...).dt.date\<close>: the calendar date of a time stamp, as it is.\<close>

definition date_of :: "timestamp \<Rightarrow> date" where
  "date_of t = (ts_year t, ts_month t, ts_day t)"

record status_log =
  log_id :: nat
  machine_id :: string
  status :: string
  log_timestamp :: timestamp
  duration_minutes :: real
  production_count :: int
  log_notes :: string

record failure_log =
  failure_id :: nat
  failure_machine_id :: string
  failure_type :: string
  failure_timestamp :: timestamp
  downtime_minutes :: real
  resolution :: string

text \<open>
  \<^verbatim>\<open>calculate_daily_failure_rate\<close> assigns a column of the frame it is given, so for
  that function the frame is a piece of state: its rows, and the column \<^verbatim>\<open>date\<close>,
  which the table does not have (\<open>None\<close>) until something assigns it.
\<close>

record failures_frame =
  frame_rows :: "failure_log list"
  date_column :: "date list option"

definition frame_columns :: "failures_frame \<Rightarrow> string list" where
  "frame_columns df =
     [''failure_id'', ''machine_id'', ''failure_type'', ''timestamp'',
      ''downtime_minutes'', ''resolution'']
     @ (case date_column df of None \<Rightarrow> [] | Some _ \<Rightarrow> [''date''])"

section \<open>Rounding\<close>

text \<open>
  \<^verbatim>\<open>round(x, 2)\<close> and \<^verbatim>\<open>Series.round(2)\<close> round to the nearest multiple of 0.01, a
  tie going to the even neighbour. The model rounds the exact value. Where the exact
  value is a tie (a third decimal of exactly 5), the float that the code rounds may lie
  just above or below the tie and go to the other neighbour; the direction of an exact
  tie is therefore the model's alone, and no statement below depends on it.
\<close>

definition round_half_even :: "real \<Rightarrow> int" where
  "round_half_even x =
     (let f = \<lfloor>x\<rfloor>; r = x - of_int f
      in if r < 1 / 2 then f
         else if 1 / 2 < r then f + 1
         else if even f then f else f + 1)"

definition round2 :: "real \<Rightarrow> real" where
  "round2 x = of_int (round_half_even (x * 100)) / 100"

section \<open>The calculator\<close>

subsection \<open>Column sums and row selection\<close>

definition total_duration :: "status_log list \<Rightarrow> real" where
  "total_duration logs = sum_list (map duration_minutes logs)"

definition with_status :: "string list \<Rightarrow> status_log list \<Rightarrow> status_log list" where
  "with_status ss logs = filter (\<lambda>l. status l \<in> set ss) logs"

definition running_logs :: "status_log list \<Rightarrow> status_log list" where
  "running_logs logs = filter (\<lambda>l. status l = ''RUNNING'') logs"

subsection \<open>Sums of a 64-bit integer column\<close>

text \<open>
  \<^verbatim>\<open>Series.sum()\<close> of an \<^verbatim>\<open>int64\<close> column adds modulo \<open>2\<^sup>6\<^sup>4\<close> and reads the result as
  a signed number; the order of the additions does not matter for that.
\<close>

definition int64_wrap :: "int \<Rightarrow> int" where
  "int64_wrap n = (n + 2 ^ 63) mod 2 ^ 64 - 2 ^ 63"

definition int64_sum :: "int list \<Rightarrow> int" where
  "int64_sum xs = int64_wrap (sum_list xs)"

subsection \<open>Time percentages\<close>

definition calculate_running_time_percentage :: "status_log list \<Rightarrow> real" where
  "calculate_running_time_percentage logs =
     (if logs = [] then 0
      else
        let running_time = total_duration (running_logs logs);
            total_time = total_duration logs
        in if total_time = 0 then 0 else (running_time / total_time) * 100)"

definition calculate_idle_time_percentage :: "status_log list \<Rightarrow> real" where
  "calculate_idle_time_percentage logs =
     (if logs = [] then 0
      else
        let idle_time = total_duration (filter (\<lambda>l. status l = ''IDLE'') logs);
            total_time = total_duration logs
        in if total_time = 0 then 0 else (idle_time / total_time) * 100)"

definition calculate_downtime_percentage :: "status_log list \<Rightarrow> real" where
  "calculate_downtime_percentage logs =
     (if logs = [] then 0
      else
        let downtime = total_duration (with_status [''FAILED'', ''MAINTENANCE''] logs);
            total_time = total_duration logs
        in if total_time = 0 then 0 else (downtime / total_time) * 100)"

subsection \<open>Daily failure rate\<close>

record failure_rate =
  avg_failures_per_day :: real
  total_failures :: nat
  max_failures_per_day :: nat
  days_tracked :: nat

text \<open>\<^verbatim>\<open>groupby('date').size()\<close>: one count per distinct date, the dates in order.\<close>

definition daily_counts :: "date list \<Rightarrow> (date \<times> nat) list" where
  "daily_counts ds = map (\<lambda>d. (d, count_list ds d)) (sort (remdups ds))"

text \<open>
  The function returns its dictionary and leaves the caller's frame as the assignment
  \<^verbatim>\<open>failures_df['date'] = ...\<close> made it; the model returns both.
\<close>

definition calculate_daily_failure_rate :: "failures_frame \<Rightarrow> failure_rate \<times> failures_frame" where
  "calculate_daily_failure_rate failures_df =
     (if frame_rows failures_df = [] then
        (\<lparr>avg_failures_per_day = 0, total_failures = 0,
          max_failures_per_day = 0, days_tracked = 0\<rparr>, failures_df)
      else
        let dates = map (\<lambda>f. date_of (failure_timestamp f)) (frame_rows failures_df);
            df' = failures_df\<lparr>date_column := Some dates\<rparr>;
            counts = map snd (daily_counts dates)
        in (\<lparr>avg_failures_per_day = round2 (real (sum_list counts) / real (length counts)),
             total_failures = length (frame_rows df'),
             max_failures_per_day = Max (set counts),
             days_tracked = length counts\<rparr>, df'))"

subsection \<open>Productivity\<close>

record productivity =
  total_production :: int
  production_per_hour :: real
  total_runtime_hours :: real
  total_runtime_minutes :: real

definition calculate_productivity :: "status_log list \<Rightarrow> productivity" where
  "calculate_productivity logs =
     (if logs = [] then
        \<lparr>total_production = 0, production_per_hour = 0,
         total_runtime_hours = 0, total_runtime_minutes = 0\<rparr>
      else
        let running = running_logs logs;
            total_prod = int64_sum (map production_count running);
            runtime_minutes = total_duration running;
            runtime_hours = runtime_minutes / 60;
            per_hour = (if runtime_hours > 0 then of_int total_prod / runtime_hours else 0)
        in \<lparr>total_production = total_prod,
            production_per_hour = round2 per_hour,
            total_runtime_hours = round2 runtime_hours,
            total_runtime_minutes = round2 runtime_minutes\<rparr>)"

subsection \<open>Overall equipment effectiveness\<close>

record oee_result =
  availability :: real
  performance :: real
  quality :: real
  oee :: real

definition total_downtime :: "failure_log list \<Rightarrow> real" where
  "total_downtime failures = (if failures \<noteq> [] then sum_list (map downtime_minutes failures) else 0)"

definition operating_time :: "failure_log list \<Rightarrow> real \<Rightarrow> real" where
  "operating_time failures planned_production_time = planned_production_time - total_downtime failures"

text \<open>The local variables \<^verbatim>\<open>availability\<close> and \<^verbatim>\<open>performance\<close>, before the cap.\<close>

definition raw_availability :: "failure_log list \<Rightarrow> real \<Rightarrow> real" where
  "raw_availability failures planned_production_time =
     (if planned_production_time > 0
      then operating_time failures planned_production_time / planned_production_time * 100
      else 0)"

definition actual_production :: "status_log list \<Rightarrow> int" where
  "actual_production logs = int64_sum (map production_count (running_logs logs))"

definition target_production :: "failure_log list \<Rightarrow> real \<Rightarrow> real \<Rightarrow> real" where
  "target_production failures ideal_cycle_time planned_production_time =
     (if ideal_cycle_time > 0
      then operating_time failures planned_production_time / ideal_cycle_time
      else 0)"

definition raw_performance :: "status_log list \<Rightarrow> failure_log list \<Rightarrow> real \<Rightarrow> real \<Rightarrow> real" where
  "raw_performance logs failures ideal_cycle_time planned_production_time =
     (let target = target_production failures ideal_cycle_time planned_production_time
      in if target > 0 then of_int (actual_production logs) / target * 100 else 0)"

definition calculate_oee ::
  "status_log list \<Rightarrow> failure_log list \<Rightarrow> real \<Rightarrow> real \<Rightarrow> oee_result" where
  "calculate_oee logs failures ideal_cycle_time planned_production_time =
     (if logs = [] then
        \<lparr>availability = 0, performance = 0, quality = 100, oee = 0\<rparr>
      else
        let a = raw_availability failures planned_production_time;
            p = raw_performance logs failures ideal_cycle_time planned_production_time;
            q = 100;
            e = (a * p * q) / 10000
        in \<lparr>availability = round2 (min a 100),
            performance = round2 (min p 100),
            quality = round2 q,
            oee = round2 e\<rparr>)"

subsection \<open>MTBF and MTTR\<close>

definition calculate_mtbf :: "failure_log list \<Rightarrow> real \<Rightarrow> real" where
  "calculate_mtbf failures runtime_hours =
     (if failures = [] \<or> runtime_hours = 0 then 0
      else round2 (runtime_hours / real (length failures)))"

definition calculate_mttr :: "failure_log list \<Rightarrow> real" where
  "calculate_mttr failures =
     (if failures = [] then 0
      else round2 ((sum_list (map downtime_minutes failures) / 60) / real (length failures)))"

subsection \<open>Status distribution\<close>

text \<open>\<^verbatim>\<open>groupby('status')['duration_minutes'].sum()\<close> at one status.\<close>

definition status_time :: "status_log list \<Rightarrow> string \<Rightarrow> real" where
  "status_time logs s = total_duration (filter (\<lambda>l. status l = s) logs)"

definition status_keys :: "status_log list \<Rightarrow> string list" where
  "status_keys logs = sort (remdups (map status logs))"

text \<open>The share of a status before \<^verbatim>\<open>.round(2)\<close>.\<close>

definition status_share :: "status_log list \<Rightarrow> string \<Rightarrow> real" where
  "status_share logs s = status_time logs s / total_duration logs * 100"

definition get_status_distribution :: "status_log list \<Rightarrow> (string \<times> real) list" where
  "get_status_distribution logs =
     (if logs = [] then []
      else if total_duration logs = 0 then []
      else map (\<lambda>s. (s, round2 (status_share logs s))) (status_keys logs))"

subsection \<open>Rows outside the time percentages\<close>

text \<open>
  The rows that none of the three time percentages counts in its numerator: those whose
  status is not one of the four strings the three selections compare with.
\<close>

definition unclassified_logs :: "status_log list \<Rightarrow> status_log list" where
  "unclassified_logs logs =
     filter (\<lambda>l. status l \<notin> set [''RUNNING'', ''IDLE'', ''FAILED'', ''MAINTENANCE'']) logs"

section \<open>Sample rows\<close>

definition sample_time :: timestamp where
  "sample_time =
     \<lparr>ts_year = 2024, ts_month = 1, ts_day = 15, ts_hour = 8, ts_minute = 30, ts_second = 0\<rparr>"

definition log_row :: "string \<Rightarrow> real \<Rightarrow> int \<Rightarrow> status_log" where
  "log_row s d p =
     \<lparr>log_id = 1, machine_id = ''M001'', status = s, log_timestamp = sample_time,
      duration_minutes = d, production_count = p, log_notes = ''''\<rparr>"

definition failure_row :: "real \<Rightarrow> failure_log" where
  "failure_row d =
     \<lparr>failure_id = 1, failure_machine_id = ''M001'', failure_type = ''Mechanical'',
      failure_timestamp = sample_time, downtime_minutes = d, resolution = ''''\<rparr>"

definition three_status_logs :: "status_log list" where
  "three_status_logs = [log_row ''RUNNING'' 1 10, log_row ''IDLE'' 1 0, log_row ''FAILED'' 1 0]"

definition spec_example_logs :: "status_log list" where
  "spec_example_logs = [log_row ''RUNNING'' 100 0, log_row ''IDLE'' 50 0]"

definition zero_runtime_logs :: "status_log list" where
  "zero_runtime_logs = [log_row ''RUNNING'' 0 5, log_row ''IDLE'' 30 0]"

text \<open>The dictionary \<^verbatim>\<open>calculate_productivity\<close> returns for an empty frame.\<close>

definition zero_productivity :: productivity where
  "zero_productivity = \<lparr>total_production = 0, production_per_hour = 0,
     total_runtime_hours = 0, total_runtime_minutes = 0\<rparr>"

definition spec_oee_logs :: "status_log list" where
  "spec_oee_logs = [log_row ''RUNNING'' 120 100]"

definition over_target_logs :: "status_log list" where
  "over_target_logs = [log_row ''RUNNING'' 120 1000]"

definition two_failures :: "failure_log list" where
  "two_failures = [failure_row 30, failure_row 90]"

definition three_failures :: "failure_log list" where
  "three_failures = [failure_row 40, failure_row 40, failure_row 40]"

text \<open>The keys of \<^verbatim>\<open>MACHINE_STATUS\<close> in \<^verbatim>\<open>config.py\<close>.\<close>

definition documented_statuses :: "string list" where
  "documented_statuses = [''RUNNING'', ''IDLE'', ''MAINTENANCE'', ''FAILED'', ''OFFLINE'']"

definition mixed_logs :: "status_log list" where
  "mixed_logs =
     [log_row ''RUNNING'' 48 10, log_row ''IDLE'' 40 0, log_row ''CALIBRATING'' 24 0,
      log_row ''RUNNING'' 16 5]"

text \<open>A frame as \<^verbatim>\<open>get_failures\<close> returns it: one failure, no \<^verbatim>\<open>date\<close> column.\<close>

definition queried_failures :: failures_frame where
  "queried_failures = \<lparr>frame_rows = [failure_row 30], date_column = None\<rparr>"

section \<open>Properties of the rounding\<close>

lemma round_half_even_of_int: "round_half_even (of_int n) = n"
  by (simp add: round_half_even_def)

lemma round_half_even_lower: "x - 1 / 2 \<le> of_int (round_half_even x)"
  unfolding round_half_even_def Let_def by (auto; linarith)

lemma round_half_even_upper: "of_int (round_half_even x) \<le> x + 1 / 2"
  unfolding round_half_even_def Let_def by (auto; linarith)

text \<open>
  Two reals whose roundings are in the wrong order would be at least one apart after
  rounding and at most one apart before it, which forces them to be equal.
\<close>

lemma round_half_even_mono:
  assumes "x \<le> y"
  shows "round_half_even x \<le> round_half_even y"
proof (rule ccontr)
  assume "\<not> round_half_even x \<le> round_half_even y"
  then have lt: "round_half_even y + 1 \<le> round_half_even x" by simp
  then have "real_of_int (round_half_even y) + 1 \<le> real_of_int (round_half_even x)"
    by linarith
  with round_half_even_lower [of y] round_half_even_upper [of x] assms
  have "x = y" by linarith
  with lt show False by simp
qed

lemma round2_mono: "x \<le> y \<Longrightarrow> round2 x \<le> round2 y"
  unfolding round2_def
  by (intro divide_right_mono iffD2 [OF of_int_le_iff] round_half_even_mono) simp_all

lemma round2_error: "\<bar>round2 x - x\<bar> \<le> 1 / 200"
proof -
  define R where "R = real_of_int (round_half_even (x * 100))"
  have eq: "round2 x = R / 100"
    by (simp add: round2_def R_def)
  have "x * 100 - 1 / 2 \<le> R" and "R \<le> x * 100 + 1 / 2"
    unfolding R_def by (rule round_half_even_lower, rule round_half_even_upper)
  then show ?thesis
    unfolding eq by linarith
qed

lemma round2_of_int: "round2 (of_int n) = of_int n"
proof -
  have "round_half_even (of_int n * 100) = n * 100"
    using round_half_even_of_int [of "n * 100"] by simp
  then show ?thesis
    by (simp add: round2_def)
qed

lemma round2_0: "round2 0 = 0"
  using round2_of_int [of 0] by simp

lemma round2_100: "round2 100 = 100"
  using round2_of_int [of 100] by simp

lemma round2_nonneg: "0 \<le> x \<Longrightarrow> 0 \<le> round2 x"
  using round2_mono [of 0 x] by (simp add: round2_0)

section \<open>Properties of the 64-bit sum\<close>

lemma int64_wrap_id:
  assumes "- (2 ^ 63) \<le> n" and "n < 2 ^ 63"
  shows "int64_wrap n = n"
proof -
  have "0 \<le> n + 2 ^ 63" and "n + 2 ^ 63 < 2 ^ 64"
    using assms by simp_all
  then have "(n + 2 ^ 63) mod 2 ^ 64 = n + 2 ^ 63"
    by (rule mod_pos_pos_trivial)
  then show ?thesis
    by (simp add: int64_wrap_def)
qed

lemma int64_sum_in_range:
  "- (2 ^ 63) \<le> sum_list xs \<Longrightarrow> sum_list xs < 2 ^ 63 \<Longrightarrow> int64_sum xs = sum_list xs"
  unfolding int64_sum_def by (rule int64_wrap_id)

lemma int64_sum_Nil: "int64_sum [] = 0"
  by (simp add: int64_sum_in_range)

text \<open>Two rows of \<open>2\<^sup>6\<^sup>2\<close> units add up to \<open>- 2\<^sup>6\<^sup>3\<close>, as in the frame.\<close>

lemma int64_sum_wraps: "int64_sum [2 ^ 62, 2 ^ 62] = - (2 ^ 63)"
  by (simp add: int64_sum_def int64_wrap_def)

section \<open>The three time percentages\<close>

lemma total_duration_Nil: "total_duration [] = 0"
  by (simp add: total_duration_def)

lemma total_duration_Cons: "total_duration (l # logs) = duration_minutes l + total_duration logs"
  by (simp add: total_duration_def)

text \<open>Every row is in exactly one of the three selections or in none of them.\<close>

lemma duration_partition:
  "total_duration (running_logs logs)
     + total_duration (filter (\<lambda>l. status l = ''IDLE'') logs)
     + total_duration (with_status [''FAILED'', ''MAINTENANCE''] logs)
     + total_duration (unclassified_logs logs)
   = total_duration logs"
proof (induction logs)
  case Nil
  show ?case
    by (simp add: running_logs_def with_status_def unclassified_logs_def total_duration_Nil)
next
  case (Cons l logs)
  then show ?case
    by (simp add: running_logs_def with_status_def unclassified_logs_def total_duration_Cons)
qed

lemma unclassified_empty:
  "\<forall>l \<in> set logs. status l \<in> {''RUNNING'', ''IDLE'', ''FAILED'', ''MAINTENANCE''}
   \<Longrightarrow> unclassified_logs logs = []"
  by (auto simp: unclassified_logs_def filter_empty_conv)

lemma three_percentages_total:
  assumes "total_duration logs \<noteq> 0"
  shows "calculate_running_time_percentage logs + calculate_idle_time_percentage logs
           + calculate_downtime_percentage logs
         = 100 - total_duration (unclassified_logs logs) / total_duration logs * 100"
proof -
  from assms have ne: "logs \<noteq> []"
    by (auto simp: total_duration_Nil)
  define T where "T = total_duration logs"
  have T: "T \<noteq> 0" using assms by (simp add: T_def)
  have part: "total_duration (running_logs logs)
     + total_duration (filter (\<lambda>l. status l = ''IDLE'') logs)
     + total_duration (with_status [''FAILED'', ''MAINTENANCE''] logs)
     = T - total_duration (unclassified_logs logs)"
    using duration_partition [of logs] by (simp add: T_def)
  have "calculate_running_time_percentage logs + calculate_idle_time_percentage logs
           + calculate_downtime_percentage logs
        = (total_duration (running_logs logs)
     + total_duration (filter (\<lambda>l. status l = ''IDLE'') logs)
     + total_duration (with_status [''FAILED'', ''MAINTENANCE''] logs)) / T * 100"
    using ne T
    by (simp add: calculate_running_time_percentage_def calculate_idle_time_percentage_def
        calculate_downtime_percentage_def Let_def T_def [symmetric] add_divide_distrib distrib_right)
  also have "\<dots> = (T - total_duration (unclassified_logs logs)) / T * 100"
    by (simp only: part)
  also have "\<dots> = 100 - total_duration (unclassified_logs logs) / T * 100"
    using T by (simp add: diff_divide_distrib left_diff_distrib)
  finally show ?thesis by (simp add: T_def)
qed

text \<open>
  In exact arithmetic the three quotients of a collection whose statuses are all among
  RUNNING, IDLE, FAILED and MAINTENANCE add up to 100. This is a fact about the exact
  quotients only: the code returns each quotient as a 64-bit float, and the floats
  returned for three rows of one minute each are 33.33333333333333 three times, which
  add up to 99.99999999999999.
\<close>

lemma exact_quotients_sum_to_100:
  assumes "\<forall>l \<in> set logs. status l \<in> {''RUNNING'', ''IDLE'', ''FAILED'', ''MAINTENANCE''}"
    and "0 < total_duration logs"
  shows "calculate_running_time_percentage logs + calculate_idle_time_percentage logs
          + calculate_downtime_percentage logs = 100"
proof -
  have "unclassified_logs logs = []"
    using assms(1) by (rule unclassified_empty)
  with three_percentages_total [of logs] assms(2) show ?thesis
    by (simp add: total_duration_Nil)
qed

lemmas pct_defs = calculate_running_time_percentage_def calculate_idle_time_percentage_def
  calculate_downtime_percentage_def running_logs_def with_status_def total_duration_def


text \<open>
  Claim C2, as stated: the three percentage functions round their result to 2 decimal
  places, and return 66.67, 33.33 and 0.0 for a RUNNING row of 100 minutes and an IDLE
  row of 50 minutes. They return the quotient as it is: 200/3 is not 66.67, and it is
  not its own rounding.
\<close>

theorem percentages_rounded_counterexample:
  "calculate_running_time_percentage spec_example_logs \<noteq> 6667 / 100
   \<and> calculate_idle_time_percentage spec_example_logs \<noteq> 3333 / 100
   \<and> calculate_running_time_percentage spec_example_logs
        \<noteq> round2 (calculate_running_time_percentage spec_example_logs)"
  by (simp add: pct_defs spec_example_logs_def log_row_def round2_def round_half_even_def)

text \<open>
  Claim C2, amended: the three percentage functions return the quotient times 100 with
  no rounding. For the RUNNING row of 100 minutes and the IDLE row of 50 minutes they
  return 200/3, 100/3 and 0, whose roundings to 2 decimal places are 66.67, 33.33 and 0.
\<close>

theorem percentages_unrounded:
  "(total_duration logs \<noteq> 0 \<longrightarrow>
      calculate_running_time_percentage logs
        = total_duration (running_logs logs) / total_duration logs * 100
      \<and> calculate_idle_time_percentage logs
        = total_duration (filter (\<lambda>l. status l = ''IDLE'') logs) / total_duration logs * 100
      \<and> calculate_downtime_percentage logs
        = total_duration (with_status [''FAILED'', ''MAINTENANCE''] logs) / total_duration logs * 100)
   \<and> calculate_running_time_percentage spec_example_logs = 200 / 3
   \<and> calculate_idle_time_percentage spec_example_logs = 100 / 3
   \<and> calculate_downtime_percentage spec_example_logs = 0
   \<and> round2 (calculate_running_time_percentage spec_example_logs) = 6667 / 100
   \<and> round2 (calculate_idle_time_percentage spec_example_logs) = 3333 / 100
   \<and> round2 (calculate_downtime_percentage spec_example_logs) = 0"
proof -
  have "logs \<noteq> []" if "total_duration logs \<noteq> 0"
    using that by (auto simp: total_duration_Nil)
  then have general: "total_duration logs \<noteq> 0 \<longrightarrow>
      calculate_running_time_percentage logs
        = total_duration (running_logs logs) / total_duration logs * 100
      \<and> calculate_idle_time_percentage logs
        = total_duration (filter (\<lambda>l. status l = ''IDLE'') logs) / total_duration logs * 100
      \<and> calculate_downtime_percentage logs
        = total_duration (with_status [''FAILED'', ''MAINTENANCE''] logs) / total_duration logs * 100"
    by (simp add: calculate_running_time_percentage_def calculate_idle_time_percentage_def
        calculate_downtime_percentage_def Let_def)
  have r: "calculate_running_time_percentage spec_example_logs = 200 / 3"
    by (simp add: pct_defs spec_example_logs_def log_row_def)
  have i: "calculate_idle_time_percentage spec_example_logs = 100 / 3"
    by (simp add: pct_defs spec_example_logs_def log_row_def)
  have d: "calculate_downtime_percentage spec_example_logs = 0"
    by (simp add: pct_defs spec_example_logs_def log_row_def)
  have rr: "round2 (calculate_running_time_percentage spec_example_logs) = 6667 / 100"
    unfolding r by (simp add: round2_def round_half_even_def)
  have ri: "round2 (calculate_idle_time_percentage spec_example_logs) = 3333 / 100"
    unfolding i by (simp add: round2_def round_half_even_def)
  have rd: "round2 (calculate_downtime_percentage spec_example_logs) = 0"
    unfolding d by (rule round2_0)
  from general r i d rr ri rd show ?thesis
    by blast
qed

theorem percentages_unrounded_witness:
  "total_duration spec_example_logs = 150
   \<and> total_duration (running_logs spec_example_logs) = 100
   \<and> calculate_running_time_percentage spec_example_logs = 100 / 150 * 100"
proof -
  have h: "total_duration spec_example_logs = 150"
    "total_duration (running_logs spec_example_logs) = 100"
    by (simp_all add: total_duration_def running_logs_def spec_example_logs_def log_row_def)
  from percentages_unrounded [of spec_example_logs] h show ?thesis
    by simp
qed

section \<open>Empty input\<close>

text \<open>
  Claim C7. On empty input every function returns its default: the three percentages 0,
  the daily failure rate the dictionary of four zeros (and the frame as it was),
  the productivity the dictionary of four zeros, the OEE availability 0, performance 0,
  quality 100 and OEE 0 whatever the other three arguments are, MTBF and MTTR 0, the
  status distribution the empty dictionary. Each function returns at its first test,
  before any division; the source has no raising statement on any path.
\<close>

theorem empty_input_defaults:
  "calculate_running_time_percentage [] = 0
   \<and> calculate_idle_time_percentage [] = 0
   \<and> calculate_downtime_percentage [] = 0
   \<and> calculate_daily_failure_rate \<lparr>frame_rows = [], date_column = c\<rparr>
       = (\<lparr>avg_failures_per_day = 0, total_failures = 0,
            max_failures_per_day = 0, days_tracked = 0\<rparr>,
          \<lparr>frame_rows = [], date_column = c\<rparr>)
   \<and> calculate_productivity [] = zero_productivity
   \<and> calculate_oee [] failures ideal_cycle_time planned_production_time
       = \<lparr>availability = 0, performance = 0, quality = 100, oee = 0\<rparr>
   \<and> calculate_mtbf [] runtime_hours = 0
   \<and> calculate_mttr [] = 0
   \<and> get_status_distribution [] = []"
  by (simp add: calculate_running_time_percentage_def calculate_idle_time_percentage_def
      calculate_downtime_percentage_def calculate_daily_failure_rate_def
      calculate_productivity_def zero_productivity_def calculate_oee_def calculate_mtbf_def
      calculate_mttr_def get_status_distribution_def)

section \<open>Productivity\<close>

text \<open>
  Claim C6, as stated: when the RUNNING rows have total duration 0, the productivity is
  the dictionary of four zeros, also when such rows have a positive production count.
  A RUNNING row of 0 minutes with 5 units gives a total production of 5.
\<close>

theorem productivity_zero_runtime_counterexample:
  "total_duration (running_logs zero_runtime_logs) = 0
   \<and> calculate_productivity zero_runtime_logs
       = \<lparr>total_production = 5, production_per_hour = 0,
          total_runtime_hours = 0, total_runtime_minutes = 0\<rparr>
   \<and> calculate_productivity zero_runtime_logs \<noteq> zero_productivity"
  by (simp add: calculate_productivity_def zero_runtime_logs_def zero_productivity_def
      log_row_def running_logs_def total_duration_def round2_0 Let_def
      int64_sum_def int64_wrap_def)

text \<open>
  Claim C6, amended: when the RUNNING rows have total duration 0, the production per
  hour, the runtime in hours and the runtime in minutes are 0 and the total production
  is the 64-bit sum of the production counts of the RUNNING rows, which is their sum
  when that is at least \<open>- 2\<^sup>6\<^sup>3\<close> and below \<open>2\<^sup>6\<^sup>3\<close>; when there is no RUNNING row at
  all, the result is the dictionary of four zeros.
\<close>

theorem productivity_zero_runtime:
  "(total_duration (running_logs logs) = 0 \<longrightarrow>
      calculate_productivity logs
        = \<lparr>total_production = int64_sum (map production_count (running_logs logs)),
           production_per_hour = 0, total_runtime_hours = 0, total_runtime_minutes = 0\<rparr>)
   \<and> (total_duration (running_logs logs) = 0
        \<and> - (2 ^ 63) \<le> sum_list (map production_count (running_logs logs))
        \<and> sum_list (map production_count (running_logs logs)) < 2 ^ 63 \<longrightarrow>
      calculate_productivity logs
        = \<lparr>total_production = sum_list (map production_count (running_logs logs)),
           production_per_hour = 0, total_runtime_hours = 0, total_runtime_minutes = 0\<rparr>)
   \<and> (running_logs logs = [] \<longrightarrow> calculate_productivity logs = zero_productivity)"
proof -
  have a: "calculate_productivity logs
        = \<lparr>total_production = int64_sum (map production_count (running_logs logs)),
           production_per_hour = 0, total_runtime_hours = 0, total_runtime_minutes = 0\<rparr>"
    if "total_duration (running_logs logs) = 0"
  proof (cases "logs = []")
    case True
    then show ?thesis
      by (simp add: calculate_productivity_def running_logs_def int64_sum_Nil)
  next
    case False
    with that show ?thesis
      by (simp add: calculate_productivity_def Let_def round2_0)
  qed
  have b: "calculate_productivity logs
        = \<lparr>total_production = sum_list (map production_count (running_logs logs)),
           production_per_hour = 0, total_runtime_hours = 0, total_runtime_minutes = 0\<rparr>"
    if "total_duration (running_logs logs) = 0"
      and "- (2 ^ 63) \<le> sum_list (map production_count (running_logs logs))"
      and "sum_list (map production_count (running_logs logs)) < 2 ^ 63"
    using a [OF that(1)] int64_sum_in_range [OF that(2,3)] by simp
  have c: "calculate_productivity logs = zero_productivity" if "running_logs logs = []"
    using a that by (simp add: total_duration_Nil zero_productivity_def int64_sum_Nil)
  from a b c show ?thesis by blast
qed

theorem productivity_zero_runtime_witness:
  "calculate_productivity zero_runtime_logs
     = \<lparr>total_production = 5, production_per_hour = 0,
        total_runtime_hours = 0, total_runtime_minutes = 0\<rparr>
   \<and> calculate_productivity [log_row ''IDLE'' 30 7] = zero_productivity"
proof -
  have h1: "total_duration (running_logs zero_runtime_logs) = 0"
    and s: "sum_list (map production_count (running_logs zero_runtime_logs)) = 5"
    by (simp_all add: zero_runtime_logs_def running_logs_def total_duration_def log_row_def)
  have r: "- (2 ^ 63) \<le> sum_list (map production_count (running_logs zero_runtime_logs))"
    "sum_list (map production_count (running_logs zero_runtime_logs)) < 2 ^ 63"
    unfolding s by simp_all
  have h2: "running_logs [log_row ''IDLE'' 30 7] = []"
    by (simp add: running_logs_def log_row_def)
  from productivity_zero_runtime [of zero_runtime_logs] h1 r
  have "calculate_productivity zero_runtime_logs
        = \<lparr>total_production = sum_list (map production_count (running_logs zero_runtime_logs)),
           production_per_hour = 0, total_runtime_hours = 0, total_runtime_minutes = 0\<rparr>"
    by blast
  moreover from productivity_zero_runtime [of "[log_row ''IDLE'' 30 7]"] h2
  have "calculate_productivity [log_row ''IDLE'' 30 7] = zero_productivity"
    by blast
  ultimately show ?thesis
    by (simp only: s simp_thms)
qed

section \<open>Overall equipment effectiveness\<close>

lemmas oee_defs = calculate_oee_def raw_availability_def raw_performance_def
  target_production_def actual_production_def operating_time_def total_downtime_def
  running_logs_def int64_sum_def int64_wrap_def

text \<open>
  Two runs: one RUNNING row of 120 minutes, one failure of 30 minutes, a cycle time of 1
  minute and 480 planned minutes, first with 100 units produced, then with 1000.
\<close>

lemma oee_spec_example:
  "calculate_oee spec_oee_logs [failure_row 30] 1 480
     = \<lparr>availability = 9375 / 100, performance = 2222 / 100, quality = 100, oee = 2083 / 100\<rparr>"
  by (simp add: oee_defs spec_oee_logs_def log_row_def failure_row_def Let_def
      round2_def round_half_even_def)

lemma oee_over_target_example:
  "calculate_oee over_target_logs [failure_row 30] 1 480
     = \<lparr>availability = 9375 / 100, performance = 100, quality = 100, oee = 20833 / 100\<rparr>"
  by (simp add: oee_defs over_target_logs_def log_row_def failure_row_def Let_def
      round2_def round_half_even_def)

text \<open>
  Claim C3 says that the returned \<open>oee\<close> is the returned availability times the returned
  performance times the quality, divided by 10000, the availability and the performance
  being the capped values of the same dictionary; and that the run with 100 units gives
  availability 93.75, performance 22.22 and \<open>oee\<close> 20.83. The run with 100 units gives
  these three values, and its \<open>oee\<close> is the product of its fields to the 2 decimal
  places kept. In the run with 1000 units the performance before the cap is 2000/9, the
  returned performance is the cap 100, the returned fields give 93.75, and the returned
  \<open>oee\<close> is 208.33: it is computed from the performance before the cap.
\<close>

theorem oee_ignores_performance_cap:
  "calculate_oee over_target_logs [failure_row 30] 1 480
     = \<lparr>availability = 9375 / 100, performance = 100, quality = 100, oee = 20833 / 100\<rparr>
   \<and> raw_performance over_target_logs [failure_row 30] 1 480 = 2000 / 9
   \<and> availability (calculate_oee over_target_logs [failure_row 30] 1 480)
       * performance (calculate_oee over_target_logs [failure_row 30] 1 480)
       * quality (calculate_oee over_target_logs [failure_row 30] 1 480) / 10000 = 9375 / 100
   \<and> calculate_oee spec_oee_logs [failure_row 30] 1 480
     = \<lparr>availability = 9375 / 100, performance = 2222 / 100, quality = 100, oee = 2083 / 100\<rparr>
   \<and> round2 (availability (calculate_oee spec_oee_logs [failure_row 30] 1 480)
       * performance (calculate_oee spec_oee_logs [failure_row 30] 1 480)
       * quality (calculate_oee spec_oee_logs [failure_row 30] 1 480) / 10000)
     = oee (calculate_oee spec_oee_logs [failure_row 30] 1 480)"
proof -
  have p: "raw_performance over_target_logs [failure_row 30] 1 480 = 2000 / 9"
    by (simp add: oee_defs over_target_logs_def log_row_def failure_row_def)
  have r: "round2 (9375 / 100 * (2222 / 100) * 100 / 10000) = 2083 / 100"
    by (simp add: round2_def round_half_even_def)
  show ?thesis
    unfolding oee_over_target_example oee_spec_example using p r by simp
qed

text \<open>
  Claim C4, as stated: availability and performance lie between 0 and 100, the
  availability also when the failures' downtime exceeds the planned production time.
  With 600 minutes of downtime against 480 planned minutes the availability is -25.
\<close>

theorem oee_availability_negative_counterexample:
  "availability (calculate_oee spec_oee_logs [failure_row 600] 1 480) = - 25
   \<and> availability (calculate_oee spec_oee_logs [failure_row 600] 1 480) < 0"
  by (simp add: oee_defs spec_oee_logs_def log_row_def failure_row_def Let_def
      round2_def round_half_even_def)

lemma actual_production_nonneg:
  assumes "\<forall>l \<in> set logs. 0 \<le> production_count l"
    and "sum_list (map production_count (running_logs logs)) < 2 ^ 63"
  shows "0 \<le> actual_production logs"
proof -
  have nonneg: "0 \<le> sum_list (map production_count (running_logs logs))"
    using assms(1) unfolding running_logs_def by (intro sum_list_nonneg) auto
  then have "- (2 ^ 63) \<le> sum_list (map production_count (running_logs logs))"
    by simp
  from int64_sum_in_range [OF this assms(2)] nonneg show ?thesis
    by (simp add: actual_production_def)
qed

lemma raw_performance_nonneg:
  assumes "\<forall>l \<in> set logs. 0 \<le> production_count l"
    and "sum_list (map production_count (running_logs logs)) < 2 ^ 63"
  shows "0 \<le> raw_performance logs failures ideal_cycle_time planned_production_time"
  using actual_production_nonneg [OF assms]
  by (simp add: raw_performance_def Let_def)

lemma raw_availability_nonneg:
  assumes "total_downtime failures \<le> planned_production_time"
  shows "0 \<le> raw_availability failures planned_production_time"
  using assms by (simp add: raw_availability_def operating_time_def)

lemma round2_min_100: "round2 (min x 100) \<le> 100"
  using round2_mono [of "min x 100" 100] by (simp add: round2_100)

text \<open>
  Claim C4, amended: for all arguments the returned availability and performance are at
  most 100; the performance is at least 0 when no production count is negative and the
  production counts of the RUNNING rows add up to less than \<open>2\<^sup>6\<^sup>3\<close>, so that their
  64-bit sum does not wrap; the availability is at least 0 when the failures' total
  downtime does not exceed the planned production time.
\<close>

theorem oee_factor_bounds:
  "availability (calculate_oee logs failures ideal_cycle_time planned_production_time) \<le> 100
   \<and> performance (calculate_oee logs failures ideal_cycle_time planned_production_time) \<le> 100
   \<and> ((\<forall>l \<in> set logs. 0 \<le> production_count l)
        \<and> sum_list (map production_count (running_logs logs)) < 2 ^ 63 \<longrightarrow>
        0 \<le> performance (calculate_oee logs failures ideal_cycle_time planned_production_time))
   \<and> (total_downtime failures \<le> planned_production_time \<longrightarrow>
        0 \<le> availability (calculate_oee logs failures ideal_cycle_time planned_production_time))"
proof (cases "logs = []")
  case True
  then show ?thesis
    by (simp add: calculate_oee_def)
next
  case False
  have av: "availability (calculate_oee logs failures ideal_cycle_time planned_production_time)
      = round2 (min (raw_availability failures planned_production_time) 100)"
    using False by (simp add: calculate_oee_def Let_def)
  have pf: "performance (calculate_oee logs failures ideal_cycle_time planned_production_time)
      = round2 (min (raw_performance logs failures ideal_cycle_time planned_production_time) 100)"
    using False by (simp add: calculate_oee_def Let_def)
  have "0 \<le> round2 (min (raw_performance logs failures ideal_cycle_time planned_production_time) 100)"
    if "\<forall>l \<in> set logs. 0 \<le> production_count l"
      and "sum_list (map production_count (running_logs logs)) < 2 ^ 63"
    using raw_performance_nonneg [OF that] by (intro round2_nonneg) simp
  moreover have "0 \<le> round2 (min (raw_availability failures planned_production_time) 100)"
    if "total_downtime failures \<le> planned_production_time"
    using raw_availability_nonneg [OF that] by (intro round2_nonneg) simp
  ultimately show ?thesis
    unfolding av pf using round2_min_100 by blast
qed

theorem oee_factor_bounds_witness:
  "map production_count (running_logs spec_oee_logs) = [100]
   \<and> total_downtime [failure_row 30] = 30
   \<and> 0 \<le> performance (calculate_oee spec_oee_logs [failure_row 30] 1 480)
   \<and> 0 \<le> availability (calculate_oee spec_oee_logs [failure_row 30] 1 480)
   \<and> availability (calculate_oee spec_oee_logs [failure_row 30] 1 480) \<le> 100"
proof -
  have e: "map production_count (running_logs spec_oee_logs) = [100]"
    "total_downtime [failure_row 30] = 30"
    by (simp_all add: running_logs_def spec_oee_logs_def log_row_def
        total_downtime_def failure_row_def)
  have h1: "\<forall>l \<in> set spec_oee_logs. 0 \<le> production_count l"
    by (simp add: spec_oee_logs_def log_row_def)
  have h2: "sum_list (map production_count (running_logs spec_oee_logs)) < 2 ^ 63"
    unfolding e by simp
  have h3: "total_downtime [failure_row 30] \<le> 480"
    unfolding e by simp
  from oee_factor_bounds [of spec_oee_logs "[failure_row 30]" 1 480] h1 h2 h3 e
  show ?thesis by blast
qed

section \<open>MTBF and MTTR\<close>

text \<open>
  Claim C8, as stated: for a fixed positive runtime, adding failures never increases
  and strictly decreases the MTBF. With one hour of runtime, 14 failures and 15 failures
  both give 0.07; and one failure gives 1 where no failure gives 0.
\<close>

theorem mtbf_strict_counterexample:
  "calculate_mtbf (replicate 14 (failure_row 30)) 1 = 7 / 100
   \<and> calculate_mtbf (replicate 15 (failure_row 30)) 1 = 7 / 100
   \<and> calculate_mtbf [] 1 = 0
   \<and> calculate_mtbf [failure_row 30] 1 = 1"
  by (simp add: calculate_mtbf_def round2_def round_half_even_def)

lemma quotient_antimono:
  fixes x :: real
  assumes "0 \<le> x" and "0 < n" and "n \<le> m"
  shows "x / real m \<le> x / real n"
  using assms by (intro divide_left_mono) simp_all

text \<open>
  Claim C8, amended: among non-empty failure collections, for a fixed positive runtime
  the MTBF of the collection with more failures is at most that of the collection with
  fewer, and for a fixed non-negative total downtime so is the MTTR. Both are 0 for the
  empty collection.
\<close>

theorem mtbf_mttr_monotone:
  "(failures \<noteq> [] \<and> length failures \<le> length failures' \<and> 0 < runtime_hours
      \<longrightarrow> calculate_mtbf failures' runtime_hours \<le> calculate_mtbf failures runtime_hours)
   \<and> (failures \<noteq> [] \<and> length failures \<le> length failures'
        \<and> 0 \<le> sum_list (map downtime_minutes failures)
        \<and> sum_list (map downtime_minutes failures') = sum_list (map downtime_minutes failures)
      \<longrightarrow> calculate_mttr failures' \<le> calculate_mttr failures)
   \<and> calculate_mtbf [] runtime_hours = 0
   \<and> calculate_mttr [] = 0"
proof -
  have mtbf: "calculate_mtbf failures' runtime_hours \<le> calculate_mtbf failures runtime_hours"
    if ne: "failures \<noteq> []" and le: "length failures \<le> length failures'"
      and pos: "0 < runtime_hours"
  proof -
    from ne have n: "0 < length failures" by simp
    with le have ne': "failures' \<noteq> []" by auto
    have "runtime_hours / real (length failures') \<le> runtime_hours / real (length failures)"
      using pos n le by (intro quotient_antimono) simp_all
    then have "round2 (runtime_hours / real (length failures'))
        \<le> round2 (runtime_hours / real (length failures))"
      by (rule round2_mono)
    with ne ne' pos show ?thesis
      by (simp add: calculate_mtbf_def)
  qed
  have mttr: "calculate_mttr failures' \<le> calculate_mttr failures"
    if ne: "failures \<noteq> []" and le: "length failures \<le> length failures'"
      and nonneg: "0 \<le> sum_list (map downtime_minutes failures)"
      and same: "sum_list (map downtime_minutes failures')
                   = sum_list (map downtime_minutes failures)"
  proof -
    from ne have n: "0 < length failures" by simp
    with le have ne': "failures' \<noteq> []" by auto
    have "(sum_list (map downtime_minutes failures) / 60) / real (length failures')
        \<le> (sum_list (map downtime_minutes failures) / 60) / real (length failures)"
      using nonneg n le by (intro quotient_antimono) simp_all
    then have "round2 ((sum_list (map downtime_minutes failures') / 60) / real (length failures'))
        \<le> round2 ((sum_list (map downtime_minutes failures) / 60) / real (length failures))"
      unfolding same by (rule round2_mono)
    with ne ne' show ?thesis
      by (simp add: calculate_mttr_def)
  qed
  have "calculate_mtbf [] runtime_hours = 0" "calculate_mttr [] = 0"
    by (simp_all add: calculate_mtbf_def calculate_mttr_def)
  with mtbf mttr show ?thesis by blast
qed

theorem mtbf_mttr_monotone_witness:
  "calculate_mtbf two_failures 20 = 10
   \<and> calculate_mtbf three_failures 20 = 667 / 100
   \<and> calculate_mttr two_failures = 1
   \<and> calculate_mttr three_failures = 67 / 100
   \<and> calculate_mtbf three_failures 20 \<le> calculate_mtbf two_failures 20
   \<and> calculate_mttr three_failures \<le> calculate_mttr two_failures"
proof -
  have h: "two_failures \<noteq> []" "length two_failures \<le> length three_failures"
    "0 \<le> sum_list (map downtime_minutes two_failures)"
    "sum_list (map downtime_minutes three_failures) = sum_list (map downtime_minutes two_failures)"
    by (simp_all add: two_failures_def three_failures_def failure_row_def)
  have v: "calculate_mtbf two_failures 20 = 10" "calculate_mtbf three_failures 20 = 667 / 100"
    "calculate_mttr two_failures = 1" "calculate_mttr three_failures = 67 / 100"
    by (simp_all add: calculate_mtbf_def calculate_mttr_def two_failures_def three_failures_def
        failure_row_def round2_def round_half_even_def)
  from mtbf_mttr_monotone [of two_failures three_failures 20] h v show ?thesis
    by simp
qed

section \<open>Status distribution\<close>

lemma set_status_keys: "set (status_keys logs) = set (map status logs)"
  by (simp add: status_keys_def)

lemma distinct_status_keys: "distinct (status_keys logs)"
  by (simp add: status_keys_def)

lemma status_time_Nil: "status_time [] s = 0"
  by (simp add: status_time_def total_duration_def)

lemma status_time_Cons:
  "status_time (l # logs) s = (if status l = s then duration_minutes l else 0) + status_time logs s"
  by (simp add: status_time_def total_duration_def)

text \<open>
  Grouping loses nothing: the per-status sums over any finite set of statuses that
  covers the rows add up to the sum over all rows.
\<close>

lemma sum_status_time:
  assumes "finite S" and "set (map status logs) \<subseteq> S"
  shows "(\<Sum>s\<in>S. status_time logs s) = total_duration logs"
  using assms(2)
proof (induction logs)
  case Nil
  show ?case by (simp add: status_time_Nil total_duration_Nil)
next
  case (Cons l logs)
  then have mem: "status l \<in> S" and sub: "set (map status logs) \<subseteq> S"
    by simp_all
  have "(\<Sum>s\<in>S. status_time (l # logs) s)
      = (\<Sum>s\<in>S. if status l = s then duration_minutes l else 0) + (\<Sum>s\<in>S. status_time logs s)"
    by (simp add: status_time_Cons sum.distrib)
  also have "(\<Sum>s\<in>S. if status l = s then duration_minutes l else 0) = duration_minutes l"
    using assms(1) mem by simp
  finally show ?case
    using Cons.IH [OF sub] by (simp add: total_duration_Cons)
qed

lemma sum_list_status_keys:
  "sum_list (map f (status_keys logs)) = (\<Sum>s\<in>set (map status logs). f s)"
  using sum_list_distinct_conv_sum_set [OF distinct_status_keys, of f logs]
  by (simp only: set_status_keys)

lemma shares_sum:
  assumes "total_duration logs \<noteq> 0"
  shows "sum_list (map (status_share logs) (status_keys logs)) = 100"
proof -
  have "sum_list (map (status_share logs) (status_keys logs))
      = (\<Sum>s\<in>set (map status logs). status_time logs s / total_duration logs * 100)"
    by (simp only: sum_list_status_keys status_share_def)
  also have "\<dots> = (\<Sum>s\<in>set (map status logs). status_time logs s) / total_duration logs * 100"
    by (simp only: sum_divide_distrib sum_distrib_right)
  also have "(\<Sum>s\<in>set (map status logs). status_time logs s) = total_duration logs"
    by (rule sum_status_time) simp_all
  finally show ?thesis
    using assms by simp
qed

lemma distribution_nonempty:
  assumes "total_duration logs \<noteq> 0"
  shows "get_status_distribution logs
           = map (\<lambda>s. (s, round2 (status_share logs s))) (status_keys logs)"
proof -
  from assms have "logs \<noteq> []" by (auto simp: total_duration_Nil)
  with assms show ?thesis by (simp add: get_status_distribution_def)
qed

lemma distribution_values_sum:
  assumes "total_duration logs \<noteq> 0"
  shows "sum_list (map snd (get_status_distribution logs))
           = (\<Sum>s\<in>set (map status logs). round2 (status_share logs s))"
proof -
  have "map snd (get_status_distribution logs)
          = map (\<lambda>s. round2 (status_share logs s)) (status_keys logs)"
    by (simp add: distribution_nonempty [OF assms] comp_def)
  then show ?thesis
    by (simp only: sum_list_status_keys)
qed

text \<open>Each rounding moves a value by at most 0.005, so a sum of them by that much each.\<close>

lemma rounded_sum_error:
  assumes "finite K"
  shows "\<bar>(\<Sum>s\<in>K. round2 (f s)) - (\<Sum>s\<in>K. f s)\<bar> \<le> real (card K) / 200"
proof -
  have "\<bar>(\<Sum>s\<in>K. round2 (f s)) - (\<Sum>s\<in>K. f s)\<bar> = \<bar>\<Sum>s\<in>K. (round2 (f s) - f s)\<bar>"
    by (simp add: sum_subtractf)
  also have "\<dots> \<le> (\<Sum>s\<in>K. \<bar>round2 (f s) - f s\<bar>)"
    by (rule sum_abs)
  also have "\<dots> \<le> (\<Sum>s\<in>K. 1 / 200)"
    by (intro sum_mono round2_error)
  also have "\<dots> = real (card K) / 200"
    by simp
  finally show ?thesis .
qed

text \<open>
  Claim C9. For a non-empty collection whose statuses are among RUNNING, IDLE,
  MAINTENANCE, FAILED and OFFLINE, with no negative duration and a positive total
  duration, the values of the returned dictionary, each rounded on its own to 2 decimal
  places, add up to 100 within 0.1, and the shares before rounding add up to exactly
  100.
\<close>

theorem status_distribution_sums_to_100:
  "logs \<noteq> []
     \<and> set (map status logs) \<subseteq> set documented_statuses
     \<and> (\<forall>l \<in> set logs. 0 \<le> duration_minutes l)
     \<and> 0 < total_duration logs
   \<longrightarrow> \<bar>sum_list (map snd (get_status_distribution logs)) - 100\<bar> \<le> 1 / 10
       \<and> sum_list (map (status_share logs) (status_keys logs)) = 100"
proof (intro impI, elim conjE)
  assume sub: "set (map status logs) \<subseteq> set documented_statuses"
    and pos: "0 < total_duration logs"
  from pos have nz: "total_duration logs \<noteq> 0" by simp
  let ?K = "set (map status logs)"
  have "card ?K \<le> card (set documented_statuses)"
    using sub by (intro card_mono) simp_all
  also have "\<dots> \<le> 5"
    using card_length [of documented_statuses] by (simp add: documented_statuses_def)
  finally have card: "real (card ?K) \<le> 5" by simp
  have exact: "(\<Sum>s\<in>?K. status_share logs s) = 100"
    using shares_sum [OF nz] by (simp only: sum_list_status_keys)
  have "\<bar>(\<Sum>s\<in>?K. round2 (status_share logs s)) - (\<Sum>s\<in>?K. status_share logs s)\<bar>
      \<le> real (card ?K) / 200"
    by (rule rounded_sum_error) simp
  with card exact have "\<bar>(\<Sum>s\<in>?K. round2 (status_share logs s)) - 100\<bar> \<le> 1 / 10"
    by simp
  then show "\<bar>sum_list (map snd (get_status_distribution logs)) - 100\<bar> \<le> 1 / 10
       \<and> sum_list (map (status_share logs) (status_keys logs)) = 100"
    using shares_sum [OF nz] by (simp only: distribution_values_sum [OF nz] simp_thms)
qed

theorem status_distribution_sums_to_100_witness:
  "get_status_distribution three_status_logs
     = [(''FAILED'', 3333 / 100), (''IDLE'', 3333 / 100), (''RUNNING'', 3333 / 100)]
   \<and> sum_list (map snd (get_status_distribution three_status_logs)) = 9999 / 100
   \<and> \<bar>sum_list (map snd (get_status_distribution three_status_logs)) - 100\<bar> \<le> 1 / 10
   \<and> sum_list (map (status_share three_status_logs) (status_keys three_status_logs)) = 100"
proof -
  have h: "three_status_logs \<noteq> []"
    "set (map status three_status_logs) \<subseteq> set documented_statuses"
    "\<forall>l \<in> set three_status_logs. 0 \<le> duration_minutes l"
    "0 < total_duration three_status_logs"
    by (simp_all add: three_status_logs_def log_row_def documented_statuses_def total_duration_def)
  have v: "get_status_distribution three_status_logs
     = [(''FAILED'', 3333 / 100), (''IDLE'', 3333 / 100), (''RUNNING'', 3333 / 100)]"
    by (simp add: get_status_distribution_def status_keys_def status_share_def status_time_def
        total_duration_def three_status_logs_def log_row_def round2_def round_half_even_def)
  have s: "sum_list (map snd (get_status_distribution three_status_logs)) = 9999 / 100"
    unfolding v by simp
  from status_distribution_sums_to_100 [of three_status_logs] h v s show ?thesis
    by blast
qed

lemma map_of_tabulate:
  "map_of (map (\<lambda>k. (k, f k)) ks) k = (if k \<in> set ks then Some (f k) else None)"
  by (induction ks) simp_all

text \<open>
  Claim C10. For a non-empty collection with a positive total duration, the keys of the
  returned dictionary are exactly the statuses that occur in the input, each once,
  whether documented or not. Each key's value is that status's share of the total
  duration to the 2 decimal places the function keeps: a multiple of 0.01 at most 0.005
  away from the sum of the durations of the rows of that status, divided by the sum of
  the durations of all rows, times 100. A row whose status is not documented gives a key
  of the dictionary and is in none of the three selections of the time percentages;
  each of these is its selection's sum of durations divided by the sum of the
  durations of all rows, times 100, so that such a row counts in the denominators only.
\<close>

theorem status_distribution_keys:
  "logs \<noteq> [] \<and> 0 < sum_list (map duration_minutes logs)
   \<longrightarrow> set (map fst (get_status_distribution logs)) = set (map status logs)
       \<and> distinct (map fst (get_status_distribution logs))
       \<and> (\<forall>s \<in> set (map status logs). \<exists>n::int.
             map_of (get_status_distribution logs) s = Some (of_int n / 100)
             \<and> \<bar>of_int n / 100
                  - sum_list (map duration_minutes (filter (\<lambda>l. status l = s) logs))
                      / sum_list (map duration_minutes logs) * 100\<bar> \<le> 1 / 200)
       \<and> (\<forall>l \<in> set logs. status l \<notin> set documented_statuses
             \<longrightarrow> status l \<in> set (map fst (get_status_distribution logs))
                 \<and> l \<notin> set (filter (\<lambda>l. status l = ''RUNNING'') logs)
                 \<and> l \<notin> set (filter (\<lambda>l. status l = ''IDLE'') logs)
                 \<and> l \<notin> set (filter (\<lambda>l. status l = ''FAILED'' \<or> status l = ''MAINTENANCE'') logs))
       \<and> calculate_running_time_percentage logs
           = sum_list (map duration_minutes (filter (\<lambda>l. status l = ''RUNNING'') logs))
               / sum_list (map duration_minutes logs) * 100
       \<and> calculate_idle_time_percentage logs
           = sum_list (map duration_minutes (filter (\<lambda>l. status l = ''IDLE'') logs))
               / sum_list (map duration_minutes logs) * 100
       \<and> calculate_downtime_percentage logs
           = sum_list (map duration_minutes
                 (filter (\<lambda>l. status l = ''FAILED'' \<or> status l = ''MAINTENANCE'') logs))
               / sum_list (map duration_minutes logs) * 100"
proof (intro impI, elim conjE)
  assume ne: "logs \<noteq> []" and pos: "0 < sum_list (map duration_minutes logs)"
  then have nz: "total_duration logs \<noteq> 0"
    by (simp add: total_duration_def)
  note dist = distribution_nonempty [OF nz]
  have keys: "map fst (get_status_distribution logs) = status_keys logs"
    by (simp add: dist comp_def)
  have k1: "set (map fst (get_status_distribution logs)) = set (map status logs)"
    by (simp only: keys set_status_keys)
  have k2: "distinct (map fst (get_status_distribution logs))"
    by (simp only: keys distinct_status_keys)
  have v: "\<exists>n::int. map_of (get_status_distribution logs) s = Some (of_int n / 100)
             \<and> \<bar>of_int n / 100
                  - sum_list (map duration_minutes (filter (\<lambda>l. status l = s) logs))
                      / sum_list (map duration_minutes logs) * 100\<bar> \<le> 1 / 200"
    if "s \<in> set (map status logs)" for s
  proof -
    define x where "x = sum_list (map duration_minutes (filter (\<lambda>l. status l = s) logs))
                      / sum_list (map duration_minutes logs) * 100"
    have share: "status_share logs s = x"
      by (simp add: status_share_def status_time_def total_duration_def x_def)
    have "map_of (get_status_distribution logs) s = Some (round2 x)"
      using that by (simp add: dist map_of_tabulate set_status_keys share)
    then have "map_of (get_status_distribution logs) s
                 = Some (of_int (round_half_even (x * 100)) / 100)"
      by (simp add: round2_def)
    moreover have "\<bar>of_int (round_half_even (x * 100)) / 100 - x\<bar> \<le> 1 / 200"
      using round2_error [of x] by (simp add: round2_def)
    ultimately show ?thesis
      unfolding x_def by blast
  qed
  have u: "status l \<in> set (map fst (get_status_distribution logs))
           \<and> l \<notin> set (filter (\<lambda>l. status l = ''RUNNING'') logs)
           \<and> l \<notin> set (filter (\<lambda>l. status l = ''IDLE'') logs)
           \<and> l \<notin> set (filter (\<lambda>l. status l = ''FAILED'' \<or> status l = ''MAINTENANCE'') logs)"
    if "l \<in> set logs" and "status l \<notin> set documented_statuses" for l
  proof -
    from that(1) have "status l \<in> set (map fst (get_status_distribution logs))"
      unfolding k1 by simp
    moreover from that(2) have "status l \<noteq> ''RUNNING''" "status l \<noteq> ''IDLE''"
      "status l \<noteq> ''FAILED''" "status l \<noteq> ''MAINTENANCE''"
      by (auto simp: documented_statuses_def)
    ultimately show ?thesis by simp
  qed
  have r: "calculate_running_time_percentage logs
           = sum_list (map duration_minutes (filter (\<lambda>l. status l = ''RUNNING'') logs))
               / sum_list (map duration_minutes logs) * 100"
    using ne pos by (simp add: calculate_running_time_percentage_def running_logs_def
        total_duration_def Let_def)
  have i: "calculate_idle_time_percentage logs
           = sum_list (map duration_minutes (filter (\<lambda>l. status l = ''IDLE'') logs))
               / sum_list (map duration_minutes logs) * 100"
    using ne pos by (simp add: calculate_idle_time_percentage_def total_duration_def Let_def)
  have d: "calculate_downtime_percentage logs
           = sum_list (map duration_minutes
                 (filter (\<lambda>l. status l = ''FAILED'' \<or> status l = ''MAINTENANCE'') logs))
               / sum_list (map duration_minutes logs) * 100"
    using ne pos by (simp add: calculate_downtime_percentage_def with_status_def
        total_duration_def Let_def)
  from k1 k2 v u r i d
  show "set (map fst (get_status_distribution logs)) = set (map status logs)
       \<and> distinct (map fst (get_status_distribution logs))
       \<and> (\<forall>s \<in> set (map status logs). \<exists>n::int.
             map_of (get_status_distribution logs) s = Some (of_int n / 100)
             \<and> \<bar>of_int n / 100
                  - sum_list (map duration_minutes (filter (\<lambda>l. status l = s) logs))
                      / sum_list (map duration_minutes logs) * 100\<bar> \<le> 1 / 200)
       \<and> (\<forall>l \<in> set logs. status l \<notin> set documented_statuses
             \<longrightarrow> status l \<in> set (map fst (get_status_distribution logs))
                 \<and> l \<notin> set (filter (\<lambda>l. status l = ''RUNNING'') logs)
                 \<and> l \<notin> set (filter (\<lambda>l. status l = ''IDLE'') logs)
                 \<and> l \<notin> set (filter (\<lambda>l. status l = ''FAILED'' \<or> status l = ''MAINTENANCE'') logs))
       \<and> calculate_running_time_percentage logs
           = sum_list (map duration_minutes (filter (\<lambda>l. status l = ''RUNNING'') logs))
               / sum_list (map duration_minutes logs) * 100
       \<and> calculate_idle_time_percentage logs
           = sum_list (map duration_minutes (filter (\<lambda>l. status l = ''IDLE'') logs))
               / sum_list (map duration_minutes logs) * 100
       \<and> calculate_downtime_percentage logs
           = sum_list (map duration_minutes
                 (filter (\<lambda>l. status l = ''FAILED'' \<or> status l = ''MAINTENANCE'') logs))
               / sum_list (map duration_minutes logs) * 100"
    by blast
qed

text \<open>
  Four rows, 128 minutes in all: RUNNING 48 and 16, IDLE 40, and 24 minutes of a status
  that is not documented. Every quotient is a binary fraction.
\<close>

theorem status_distribution_keys_witness:
  "map status mixed_logs = [''RUNNING'', ''IDLE'', ''CALIBRATING'', ''RUNNING'']
   \<and> map duration_minutes mixed_logs = [48, 40, 24, 16]
   \<and> get_status_distribution mixed_logs
       = [(''CALIBRATING'', 1875 / 100), (''IDLE'', 3125 / 100), (''RUNNING'', 50)]
   \<and> set (map fst (get_status_distribution mixed_logs)) = {''CALIBRATING'', ''IDLE'', ''RUNNING''}
   \<and> calculate_running_time_percentage mixed_logs = 50
   \<and> calculate_idle_time_percentage mixed_logs = 3125 / 100
   \<and> calculate_downtime_percentage mixed_logs = 0"
proof -
  have m: "map status mixed_logs = [''RUNNING'', ''IDLE'', ''CALIBRATING'', ''RUNNING'']"
    "map duration_minutes mixed_logs = [48, 40, 24, 16]"
    by (simp_all add: mixed_logs_def log_row_def)
  have h: "mixed_logs \<noteq> []" "0 < sum_list (map duration_minutes mixed_logs)"
    by (simp_all add: mixed_logs_def log_row_def)
  have sums: "sum_list (map duration_minutes mixed_logs) = 128"
    "sum_list (map duration_minutes (filter (\<lambda>l. status l = ''RUNNING'') mixed_logs)) = 64"
    "sum_list (map duration_minutes (filter (\<lambda>l. status l = ''IDLE'') mixed_logs)) = 40"
    "sum_list (map duration_minutes
       (filter (\<lambda>l. status l = ''FAILED'' \<or> status l = ''MAINTENANCE'') mixed_logs)) = 0"
    by (simp_all add: mixed_logs_def log_row_def)
  have d: "get_status_distribution mixed_logs
       = [(''CALIBRATING'', 1875 / 100), (''IDLE'', 3125 / 100), (''RUNNING'', 50)]"
    by (simp add: get_status_distribution_def status_keys_def status_share_def status_time_def
        total_duration_def mixed_logs_def log_row_def round2_def round_half_even_def)
  note t = status_distribution_keys [of mixed_logs]
  from t h have k: "set (map fst (get_status_distribution mixed_logs)) = set (map status mixed_logs)"
    by blast
  from t h have "calculate_running_time_percentage mixed_logs
      = sum_list (map duration_minutes (filter (\<lambda>l. status l = ''RUNNING'') mixed_logs))
          / sum_list (map duration_minutes mixed_logs) * 100"
    by blast
  then have r: "calculate_running_time_percentage mixed_logs = 50"
    unfolding sums by simp
  from t h have "calculate_idle_time_percentage mixed_logs
      = sum_list (map duration_minutes (filter (\<lambda>l. status l = ''IDLE'') mixed_logs))
          / sum_list (map duration_minutes mixed_logs) * 100"
    by blast
  then have i: "calculate_idle_time_percentage mixed_logs = 3125 / 100"
    unfolding sums by simp
  from t h have "calculate_downtime_percentage mixed_logs
      = sum_list (map duration_minutes
            (filter (\<lambda>l. status l = ''FAILED'' \<or> status l = ''MAINTENANCE'') mixed_logs))
          / sum_list (map duration_minutes mixed_logs) * 100"
    by blast
  then have dn: "calculate_downtime_percentage mixed_logs = 0"
    unfolding sums by simp
  have k': "set (map fst (get_status_distribution mixed_logs)) = {''CALIBRATING'', ''IDLE'', ''RUNNING''}"
    unfolding k m by auto
  from m d k' r i dn show ?thesis
    by blast
qed

section \<open>Daily failure rate and the caller's frame\<close>

text \<open>
  Claim C5 says that every function of the calculator, \<^verbatim>\<open>calculate_daily_failure_rate\<close>
  included, leaves its input collections as they were, with no field added, removed or
  modified. Evaluated on a frame of one failure with the six columns of the table,
  \<^verbatim>\<open>calculate_daily_failure_rate\<close> returns its four statistics and leaves the frame
  with a seventh column, \<^verbatim>\<open>date\<close>.
\<close>

theorem daily_failure_rate_assigns_date_column:
  "frame_columns queried_failures
     = [''failure_id'', ''machine_id'', ''failure_type'', ''timestamp'',
        ''downtime_minutes'', ''resolution'']
   \<and> fst (calculate_daily_failure_rate queried_failures)
     = \<lparr>avg_failures_per_day = 1, total_failures = 1,
        max_failures_per_day = 1, days_tracked = 1\<rparr>
   \<and> snd (calculate_daily_failure_rate queried_failures)
     = \<lparr>frame_rows = [failure_row 30], date_column = Some [(2024, 1, 15)]\<rparr>
   \<and> frame_columns (snd (calculate_daily_failure_rate queried_failures))
     = [''failure_id'', ''machine_id'', ''failure_type'', ''timestamp'',
        ''downtime_minutes'', ''resolution'', ''date'']
   \<and> snd (calculate_daily_failure_rate queried_failures) \<noteq> queried_failures"
  by (simp add: calculate_daily_failure_rate_def queried_failures_def frame_columns_def
      daily_counts_def date_of_def failure_row_def sample_time_def Let_def
      round2_def round_half_even_def)

end
